theory Spec2Isabelle
  imports Main "HOL-Library.Sublist"
begin

section \<open>Python values the service handles\<close>

subsection \<open>Exceptions\<close>

text \<open>
  A raised Python exception, as far as \<^verbatim>\<open>app/main.py\<close> looks at it: the names of the
  classes in \<^verbatim>\<open>type(e).__mro__\<close> (which is what an \<^verbatim>\<open>except C\<close> clause tests), the
  text \<^verbatim>\<open>str(e)\<close>, and the text \<^verbatim>\<open>traceback.format_exc()\<close> renders while \<^verbatim>\<open>e\<close> is
  being handled.
\<close>

record exc =
  mro :: "string list"
  str :: string
  format_exc :: string

definition isinstance :: "exc \<Rightarrow> string \<Rightarrow> bool" where
  "isinstance e cls = (cls \<in> set (mro e))"

text \<open>Python's \<^verbatim>\<open>sub in s\<close> on strings: \<^verbatim>\<open>sub\<close> occurs in \<^verbatim>\<open>s\<close> as a contiguous run.\<close>

fun py_in :: "string \<Rightarrow> string \<Rightarrow> bool" where
  "py_in sub [] = (sub = [])"
| "py_in sub (c # cs) = (prefix sub (c # cs) \<or> py_in sub cs)"

datatype 'r outcome = Returned 'r | Raised exc

subsection \<open>The operational log\<close>

datatype level = DEBUG | INFO | WARNING | ERROR | CRITICAL

type_synonym log_record = "level \<times> string"

text \<open>
  Everything a handler can change is the world: the records written through
  \<^verbatim>\<open>logger\<close>, and the rest of the process state (the database client, whatever the route
  handlers keep), of a type the shell does not look into.
\<close>

record 'x world =
  log :: "log_record list"
  rest :: 'x

definition logger_error :: "string \<Rightarrow> 'x world \<Rightarrow> 'x world" where
  "logger_error m w = w\<lparr>log := log w @ [(ERROR, m)]\<rparr>"

definition logger_critical :: "string \<Rightarrow> 'x world \<Rightarrow> 'x world" where
  "logger_critical m w = w\<lparr>log := log w @ [(CRITICAL, m)]\<rparr>"

subsection \<open>Responses\<close>

datatype content = JSON "(string \<times> string) list" | Raw string

record response =
  status_code :: int
  body :: content

definition JSONResponse :: "int \<Rightarrow> (string \<times> string) list \<Rightarrow> response" where
  "JSONResponse sc c = \<lparr>status_code = sc, body = JSON c\<rparr>"

type_synonym ('q, 'x) chain = "'q \<Rightarrow> 'x world \<Rightarrow> response outcome \<times> 'x world"

section \<open>The exception handling middleware\<close>

text \<open>
  \<^verbatim>\<open>db_exception_handler(request, call_next)\<close> of \<^verbatim>\<open>create_app\<close>. The \<^verbatim>\<open>try\<close> body
  awaits \<^verbatim>\<open>call_next(request)\<close>; the two \<^verbatim>\<open>except\<close> clauses are tried in the order
  written, and an exception that neither clause matches leaves the function as it came.
  The bare \<^verbatim>\<open>raise\<close> raises the exception being handled again; no later clause of the
  same \<^verbatim>\<open>try\<close> sees it.
\<close>

definition db_exception_handler :: "('q, 'x) chain \<Rightarrow> 'q \<Rightarrow> 'x world \<Rightarrow> response outcome \<times> 'x world" where
  "db_exception_handler call_next request w =
     (case call_next request w of
        (Returned response, w1) \<Rightarrow> (Returned response, w1)
      | (Raised e, w1) \<Rightarrow>
          if isinstance e ''RuntimeError'' then
            if py_in ''MongoDB'' (str e) then
              (Returned (JSONResponse 503 [(''detail'', ''Service unavailable - database error'')]),
               logger_error (''Database error: '' @ str e) w1)
            else (Raised e, w1)
          else if isinstance e ''Exception'' then
            (Returned (JSONResponse 500 [(''detail'', ''Internal server error'')]),
             logger_error (''Unhandled exception: '' @ str e @ [CHR 0x0A] @ format_exc e) w1)
          else (Raised e, w1))"

text \<open>
  How the two \<^verbatim>\<open>except\<close> clauses sort an exception: the first clause with its test of the
  text gives the 503 response, the second clause gives the 500 response, and every other
  exception leaves the middleware as it came (the bare \<^verbatim>\<open>raise\<close> of the first clause,
  and what no clause matches).
\<close>

datatype FailureClassification = ServiceUnavailable | InternalError | PassThrough

definition classify :: "exc \<Rightarrow> FailureClassification" where
  "classify e =
     (if isinstance e ''RuntimeError'' then
        if py_in ''MongoDB'' (str e) then ServiceUnavailable else PassThrough
      else if isinstance e ''Exception'' then InternalError
      else PassThrough)"

text \<open>A handler chain that fails with \<open>e\<close> whatever the request, and changes nothing.\<close>

definition raising :: "exc \<Rightarrow> ('q, 'x) chain" where
  "raising e request w = (Raised e, w)"

text \<open>A handler chain that answers \<open>r\<close> whatever the request, and changes nothing.\<close>

definition answering :: "response \<Rightarrow> ('q, 'x) chain" where
  "answering r request w = (Returned r, w)"

text \<open>Instances of some classes of the standard library and of FastAPI.\<close>

definition RuntimeError :: "string \<Rightarrow> exc" where
  "RuntimeError m =
     \<lparr>mro = [''RuntimeError'', ''Exception'', ''BaseException'', ''object''],
      str = m, format_exc = ''Traceback (most recent call last): RuntimeError: '' @ m\<rparr>"

definition ValueError :: "string \<Rightarrow> exc" where
  "ValueError m =
     \<lparr>mro = [''ValueError'', ''Exception'', ''BaseException'', ''object''],
      str = m, format_exc = ''Traceback (most recent call last): ValueError: '' @ m\<rparr>"

definition RequestValidationError :: "string \<Rightarrow> exc" where
  "RequestValidationError m =
     \<lparr>mro = [''RequestValidationError'', ''ValidationException'', ''Exception'',
             ''BaseException'', ''object''],
      str = m, format_exc = ''Traceback (most recent call last): RequestValidationError: '' @ m\<rparr>"

definition world0 :: "unit world" where
  "world0 = \<lparr>log = [], rest = ()\<rparr>"

section \<open>The database events\<close>

type_synonym 'x action = "'x world \<Rightarrow> unit outcome \<times> 'x world"

text \<open>
  \<^verbatim>\<open>startup_db\<close> and \<^verbatim>\<open>shutdown_db\<close>. Both call a function of \<^verbatim>\<open>app.db.database\<close>, a
  module that is not among the sources; it is the first argument here.
\<close>

definition startup_db :: "'x action \<Rightarrow> 'x action" where
  "startup_db connect_to_mongo w =
     (case connect_to_mongo w of
        (Returned u, w1) \<Rightarrow> (Returned (), w1)
      | (Raised e, w1) \<Rightarrow>
          if isinstance e ''Exception'' then
            (Raised e, logger_critical (''Failed to initialize database: '' @ str e) w1)
          else (Raised e, w1))"

definition shutdown_db :: "'x action \<Rightarrow> 'x action" where
  "shutdown_db close_mongo_connection w =
     (case close_mongo_connection w of
        (Returned u, w1) \<Rightarrow> (Returned (), w1)
      | (Raised e, w1) \<Rightarrow> (Raised e, w1))"

subsection \<open>The resource lifecycle manager\<close>

text \<open>
  Modelled from the spec: the state of the resource lifecycle manager, which lives in
  \<^verbatim>\<open>app.db.database\<close>, a module missing from the sources. The spec gives the six states
  and a connection handle that \<^verbatim>\<open>acquire()\<close> creates and \<^verbatim>\<open>release()\<close> invalidates.
\<close>

datatype ServiceLifecycleState =
  UNINITIALIZED | CONNECTING | READY | DEGRADED | SHUTTING_DOWN | CLOSED

record 'c manager =
  state :: ServiceLifecycleState
  handle :: "'c option"

text \<open>
  Modelled from the spec: \<^verbatim>\<open>close_mongo_connection\<close> of \<^verbatim>\<open>app.db.database\<close>, which is
  missing from the sources. The spec calls it \<^verbatim>\<open>release()\<close>: it takes the current state
  through \<^verbatim>\<open>SHUTTING_DOWN\<close> to \<^verbatim>\<open>CLOSED\<close>; called when already \<^verbatim>\<open>CLOSED\<close> it is a
  no-op; it must not throw, a failure of the underlying close being logged and swallowed;
  the connection handle is invalidated. The underlying close of the driver is the
  argument \<open>driver_close\<close>, which answers the exception it failed with, if any. The spec
  does not give the level or the text of the log record: the model writes \<^verbatim>\<open>str(e)\<close> at
  level \<^verbatim>\<open>ERROR\<close>.
\<close>

definition close_mongo_connection :: "('c \<Rightarrow> exc option) \<Rightarrow> 'c manager action" where
  "close_mongo_connection driver_close w =
     (if state (rest w) = CLOSED then (Returned (), w)
      else
        let w1 = w\<lparr>rest := (rest w)\<lparr>state := SHUTTING_DOWN\<rparr>\<rparr>;
            w2 = (case handle (rest w1) of
                    None \<Rightarrow> w1
                  | Some c \<Rightarrow>
                      (case driver_close c of
                         None \<Rightarrow> w1
                       | Some e \<Rightarrow> logger_error (str e) w1))
        in (Returned (), w2\<lparr>rest := (rest w2)\<lparr>state := CLOSED, handle := None\<rparr>\<rparr>))"

section \<open>Route composition\<close>

text \<open>
  A route is a path and the name of its endpoint function. \<^verbatim>\<open>include_router\<close> (of an
  \<^verbatim>\<open>APIRouter\<close> and of the application alike) adds every route of the included router,
  in order, under \<^verbatim>\<open>prefix + route.path\<close> (the prefix is \<open>pre\<close> here).
\<close>

record route =
  path :: string
  endpoint :: string

definition include_router :: "route list \<Rightarrow> string \<Rightarrow> route list \<Rightarrow> route list" where
  "include_router included pre self = self @ map (\<lambda>r. r\<lparr>path := pre @ path r\<rparr>) included"

text \<open>
  \<^verbatim>\<open>app/api/v1/__init__.py\<close>: the module's \<^verbatim>\<open>router\<close>. The four routers it includes come
  from modules that are not among the sources; they are the arguments.
\<close>

definition router :: "route list \<Rightarrow> route list \<Rightarrow> route list \<Rightarrow> route list \<Rightarrow> route list" where
  "router auth_router artwork_router blockchain_router admin_router =
     include_router admin_router []
       (include_router blockchain_router []
          (include_router artwork_router []
             (include_router auth_router [] [])))"

section \<open>The application\<close>

text \<open>
  What \<^verbatim>\<open>create_app\<close> builds: the routes, the event handlers, and the middleware added
  by the user. \<^verbatim>\<open>add_middleware\<close> puts the new middleware in front of the ones added
  before, and the stack is built so that the first of the list is the outermost: it is
  \<^verbatim>\<open>call_next\<close> of that one that runs the others and, innermost, the router with the
  endpoints.
\<close>

record ('q, 'x) FastAPI =
  routes :: "route list"
  on_startup :: "'x action list"
  on_shutdown :: "'x action list"
  user_middleware :: "(('q, 'x) chain \<Rightarrow> ('q, 'x) chain) list"

definition FastAPI0 :: "('q, 'x) FastAPI" where
  "FastAPI0 = \<lparr>routes = [], on_startup = [], on_shutdown = [], user_middleware = []\<rparr>"

definition add_middleware ::
  "(('q, 'x) chain \<Rightarrow> ('q, 'x) chain) \<Rightarrow> ('q, 'x) FastAPI \<Rightarrow> ('q, 'x) FastAPI" where
  "add_middleware m app = app\<lparr>user_middleware := m # user_middleware app\<rparr>"

definition add_startup_handler :: "'x action \<Rightarrow> ('q, 'x) FastAPI \<Rightarrow> ('q, 'x) FastAPI" where
  "add_startup_handler h app = app\<lparr>on_startup := on_startup app @ [h]\<rparr>"

definition add_shutdown_handler :: "'x action \<Rightarrow> ('q, 'x) FastAPI \<Rightarrow> ('q, 'x) FastAPI" where
  "add_shutdown_handler h app = app\<lparr>on_shutdown := on_shutdown app @ [h]\<rparr>"

definition app_include_router ::
  "route list \<Rightarrow> string \<Rightarrow> ('q, 'x) FastAPI \<Rightarrow> ('q, 'x) FastAPI" where
  "app_include_router included pre app = app\<lparr>routes := include_router included pre (routes app)\<rparr>"

definition app_get :: "string \<Rightarrow> string \<Rightarrow> ('q, 'x) FastAPI \<Rightarrow> ('q, 'x) FastAPI" where
  "app_get p f app = app\<lparr>routes := routes app @ [\<lparr>path = p, endpoint = f\<rparr>]\<rparr>"

definition register_routes_and_events ::
  "'x action \<Rightarrow> 'x action \<Rightarrow> route list \<Rightarrow> ('q, 'x) FastAPI \<Rightarrow> ('q, 'x) FastAPI" where
  "register_routes_and_events connect_to_mongo close_mongo api_router app =
     app_get ''/favicon.ico'' ''favicon''
       (app_get ''/'' ''root''
          (app_include_router api_router ''/api/v1''
             (add_shutdown_handler (shutdown_db close_mongo)
                (add_startup_handler (startup_db connect_to_mongo) app))))"

text \<open>
  \<^verbatim>\<open>create_app\<close>. \<^verbatim>\<open>CORSMiddleware\<close> is FastAPI's and is the argument \<open>cors\<close>; the imports
  of \<^verbatim>\<open>app.db.database\<close> and of \<^verbatim>\<open>app.api.v1\<close> are the other arguments.
\<close>

definition create_app ::
  "(('q, 'x) chain \<Rightarrow> ('q, 'x) chain) \<Rightarrow> 'x action \<Rightarrow> 'x action \<Rightarrow> route list \<Rightarrow> ('q, 'x) FastAPI" where
  "create_app cors connect_to_mongo close_mongo api_router =
     register_routes_and_events connect_to_mongo close_mongo api_router
       (add_middleware db_exception_handler (add_middleware cors FastAPI0))"

definition build_middleware_stack :: "('q, 'x) FastAPI \<Rightarrow> ('q, 'x) chain \<Rightarrow> ('q, 'x) chain" where
  "build_middleware_stack app endpoints = foldr (\<lambda>m c. m c) (user_middleware app) endpoints"

subsection \<open>The framework's exception handlers\<close>

text \<open>
  Between the middleware the user adds and the router, the framework puts its own
  \<^verbatim>\<open>ExceptionMiddleware\<close>. It catches an \<^verbatim>\<open>Exception\<close> raised by the router, looks for a
  handler registered for one of the classes of the exception, in the order of its MRO,
  and answers with the response of that handler; an exception with no handler goes on as
  it came. FastAPI registers handlers for \<^verbatim>\<open>HTTPException\<close> and for
  \<^verbatim>\<open>RequestValidationError\<close> on every application, and \<^verbatim>\<open>create_app\<close> registers none of its
  own. The handler for \<^verbatim>\<open>RequestValidationError\<close> answers with status 422 and the errors
  of the exception under \<^verbatim>\<open>detail\<close>. The rendering of these errors and the handler for
  \<^verbatim>\<open>HTTPException\<close> are arguments.
\<close>

type_synonym handlers = "(string \<times> (exc \<Rightarrow> response)) list"

fun lookup_exception_handler :: "handlers \<Rightarrow> string list \<Rightarrow> (exc \<Rightarrow> response) option" where
  "lookup_exception_handler hs [] = None"
| "lookup_exception_handler hs (cls # classes) =
     (case map_of hs cls of
        Some h \<Rightarrow> Some h
      | None \<Rightarrow> lookup_exception_handler hs classes)"

definition request_validation_exception_handler :: "(exc \<Rightarrow> string) \<Rightarrow> exc \<Rightarrow> response" where
  "request_validation_exception_handler errors e = JSONResponse 422 [(''detail'', errors e)]"

definition exception_handlers :: "(exc \<Rightarrow> response) \<Rightarrow> (exc \<Rightarrow> string) \<Rightarrow> handlers" where
  "exception_handlers http_exception_handler errors =
     [(''HTTPException'', http_exception_handler),
      (''RequestValidationError'', request_validation_exception_handler errors)]"

definition ExceptionMiddleware :: "handlers \<Rightarrow> ('q, 'x) chain \<Rightarrow> ('q, 'x) chain" where
  "ExceptionMiddleware hs app request w =
     (case app request w of
        (Returned response, w1) \<Rightarrow> (Returned response, w1)
      | (Raised e, w1) \<Rightarrow>
          if isinstance e ''Exception'' then
            (case lookup_exception_handler hs (mro e) of
               Some h \<Rightarrow> (Returned (h e), w1)
             | None \<Rightarrow> (Raised e, w1))
          else (Raised e, w1))"

text \<open>A handler for \<^verbatim>\<open>HTTPException\<close> to run the application with.\<close>

definition answer_detail :: "exc \<Rightarrow> response" where
  "answer_detail e = JSONResponse 404 [(''detail'', str e)]"

subsection \<open>The host runtime\<close>

text \<open>
  The server that runs the application is not part of the repository. What the
  application relies on is the lifespan protocol: the startup handlers run first, in the
  order registered, and the first one that raises aborts the start, with no request ever
  served; otherwise the requests are served through the middleware stack, and on the
  shutdown signal the shutdown handlers run. Requests are taken one after the other
  here. The phases are those of the spec's application shell.
\<close>

datatype phase = STARTING | RUNNING | STOPPING | STOPPED

fun run_handlers :: "'x action list \<Rightarrow> 'x action" where
  "run_handlers [] w = (Returned (), w)"
| "run_handlers (h # hs) w =
     (case h w of
        (Returned u, w1) \<Rightarrow> run_handlers hs w1
      | (Raised e, w1) \<Rightarrow> (Raised e, w1))"

fun serve :: "('q, 'x) chain \<Rightarrow> 'q list \<Rightarrow> 'x world \<Rightarrow> response outcome list \<times> 'x world" where
  "serve c [] w = ([], w)"
| "serve c (q # qs) w =
     (case c q w of (r, w1) \<Rightarrow> (case serve c qs w1 of (rs, w2) \<Rightarrow> (r # rs, w2)))"

record 'x run =
  phases :: "phase list"
  startup_failure :: "exc option"
  responses :: "response outcome list"
  final :: "'x world"

definition run_server ::
  "('q, 'x) FastAPI \<Rightarrow> ('q, 'x) chain \<Rightarrow> 'q list \<Rightarrow> 'x world \<Rightarrow> 'x run" where
  "run_server app endpoints requests w =
     (case run_handlers (on_startup app) w of
        (Raised e, w1) \<Rightarrow>
          \<lparr>phases = [STARTING], startup_failure = Some e, responses = [], final = w1\<rparr>
      | (Returned u, w1) \<Rightarrow>
          (case serve (build_middleware_stack app endpoints) requests w1 of
             (rs, w2) \<Rightarrow>
               \<lparr>phases = [STARTING, RUNNING, STOPPING, STOPPED], startup_failure = None,
                responses = rs, final = snd (run_handlers (on_shutdown app) w2)\<rparr>))"

text \<open>A handler chain that counts its invocations in the world and ends with \<open>out\<close>.\<close>

definition counting :: "response outcome \<Rightarrow> ('q, nat) chain" where
  "counting out request w = (out, w\<lparr>rest := Suc (rest w)\<rparr>)"

text \<open>
  Small collaborators to run the application with: a middleware that hands the request on
  and the outcome back, a connection function that succeeds and one that fails with \<open>e\<close>,
  a driver whose close fails with \<open>e\<close>, and a route group for each of the four modules.
\<close>

definition transparent :: "('q, 'x) chain \<Rightarrow> ('q, 'x) chain" where
  "transparent call_next = call_next"

definition succeeding :: "'x action" where
  "succeeding w = (Returned (), w)"

definition failing :: "exc \<Rightarrow> 'x action" where
  "failing e w = (Raised e, w)"

definition refusing :: "exc \<Rightarrow> 'c \<Rightarrow> exc option" where
  "refusing e c = Some e"

definition auth_routes :: "route list" where
  "auth_routes = [\<lparr>path = ''/auth/login'', endpoint = ''login''\<rparr>,
                  \<lparr>path = ''/auth/register'', endpoint = ''register''\<rparr>]"

definition artwork_routes :: "route list" where
  "artwork_routes = [\<lparr>path = ''/artwork/{id}'', endpoint = ''get_artwork''\<rparr>]"

definition blockchain_routes :: "route list" where
  "blockchain_routes = [\<lparr>path = ''/blockchain/status'', endpoint = ''status''\<rparr>]"

definition admin_routes :: "route list" where
  "admin_routes = [\<lparr>path = ''/admin/users'', endpoint = ''list_users''\<rparr>]"

section \<open>Facts about the embedding\<close>

lemma py_in_iff: "py_in sub s \<longleftrightarrow> (\<exists>ps ss. s = ps @ sub @ ss)"
proof (induction s)
  case Nil
  then show ?case by auto
next
  case (Cons c cs)
  show ?case
  proof
    assume "py_in sub (c # cs)"
    then consider "prefix sub (c # cs)" | "py_in sub cs" by auto
    then show "\<exists>ps ss. c # cs = ps @ sub @ ss"
    proof cases
      case 1
      then obtain ss where "c # cs = sub @ ss" by (auto simp: prefix_def)
      then have "c # cs = [] @ sub @ ss" by simp
      then show ?thesis by blast
    next
      case 2
      with Cons.IH obtain ps ss where "cs = ps @ sub @ ss" by blast
      then have "c # cs = (c # ps) @ sub @ ss" by simp
      then show ?thesis by blast
    qed
  next
    assume "\<exists>ps ss. c # cs = ps @ sub @ ss"
    then obtain ps ss where eq: "c # cs = ps @ sub @ ss" by blast
    show "py_in sub (c # cs)"
    proof (cases ps)
      case Nil
      with eq have "prefix sub (c # cs)" by (simp add: prefix_def)
      then show ?thesis by simp
    next
      case (Cons p ps')
      with eq have "cs = ps' @ sub @ ss" by simp
      with Cons.IH have "py_in sub cs" by blast
      then show ?thesis by simp
    qed
  qed
qed

text \<open>The four ways through the middleware when the handler chain fails, and the one when it does not.\<close>

lemma mw_returned:
  "call_next request w = (Returned r, w1) \<Longrightarrow>
   db_exception_handler call_next request w = (Returned r, w1)"
  by (simp add: db_exception_handler_def)

lemma mw_503:
  "call_next request w = (Raised e, w1) \<Longrightarrow> isinstance e ''RuntimeError'' \<Longrightarrow>
   py_in ''MongoDB'' (str e) \<Longrightarrow>
   db_exception_handler call_next request w =
     (Returned (JSONResponse 503 [(''detail'', ''Service unavailable - database error'')]),
      logger_error (''Database error: '' @ str e) w1)"
  by (simp add: db_exception_handler_def)

lemma mw_reraise:
  "call_next request w = (Raised e, w1) \<Longrightarrow> isinstance e ''RuntimeError'' \<Longrightarrow>
   \<not> py_in ''MongoDB'' (str e) \<Longrightarrow>
   db_exception_handler call_next request w = (Raised e, w1)"
  by (simp add: db_exception_handler_def)

lemma mw_500:
  "call_next request w = (Raised e, w1) \<Longrightarrow> \<not> isinstance e ''RuntimeError'' \<Longrightarrow>
   isinstance e ''Exception'' \<Longrightarrow>
   db_exception_handler call_next request w =
     (Returned (JSONResponse 500 [(''detail'', ''Internal server error'')]),
      logger_error (''Unhandled exception: '' @ str e @ [CHR 0x0A] @ format_exc e) w1)"
  by (simp add: db_exception_handler_def)

lemma mw_uncaught:
  "call_next request w = (Raised e, w1) \<Longrightarrow> \<not> isinstance e ''RuntimeError'' \<Longrightarrow>
   \<not> isinstance e ''Exception'' \<Longrightarrow>
   db_exception_handler call_next request w = (Raised e, w1)"
  by (simp add: db_exception_handler_def)

lemma JSONResponse_eq: "JSONResponse a b = JSONResponse c d \<longleftrightarrow> a = c \<and> b = d"
  by (simp add: JSONResponse_def)

lemma stack_outermost:
  "build_middleware_stack (create_app cors connect_to_mongo close_mongo api_router) endpoints
     = db_exception_handler (cors endpoints)"
  by (simp add: build_middleware_stack_def create_app_def register_routes_and_events_def
      app_get_def app_include_router_def add_shutdown_handler_def add_startup_handler_def
      add_middleware_def FastAPI0_def)

lemma on_startup_create_app:
  "on_startup (create_app cors connect_to_mongo close_mongo api_router) = [startup_db connect_to_mongo]"
  by (simp add: create_app_def register_routes_and_events_def
      app_get_def app_include_router_def add_shutdown_handler_def add_startup_handler_def
      add_middleware_def FastAPI0_def)

lemma routes_create_app:
  "routes (create_app cors connect_to_mongo close_mongo api_router) =
     map (\<lambda>r. r\<lparr>path := ''/api/v1'' @ path r\<rparr>) api_router
     @ [\<lparr>path = ''/'', endpoint = ''root''\<rparr>, \<lparr>path = ''/favicon.ico'', endpoint = ''favicon''\<rparr>]"
  by (simp add: create_app_def register_routes_and_events_def include_router_def
      app_get_def app_include_router_def add_shutdown_handler_def add_startup_handler_def
      add_middleware_def FastAPI0_def)

lemma include_router_no_prefix: "include_router g [] self = self @ g"
  by (simp add: include_router_def)

lemma startup_db_raised:
  "connect_to_mongo w = (Raised e, w1) \<Longrightarrow> isinstance e ''Exception'' \<Longrightarrow>
   startup_db connect_to_mongo w =
     (Raised e, logger_critical (''Failed to initialize database: '' @ str e) w1)"
  by (simp add: startup_db_def)

lemma startup_db_returned_iff:
  "(\<exists>w1. startup_db connect_to_mongo w = (Returned (), w1))
     \<longleftrightarrow> (\<exists>w1. connect_to_mongo w = (Returned (), w1))"
  by (cases "connect_to_mongo w") (auto simp: startup_db_def split: outcome.splits if_splits)

lemma shutdown_db_same: "shutdown_db close_mongo w = close_mongo w"
  by (cases "close_mongo w") (auto simp: shutdown_db_def split: outcome.splits)

lemma lookup_validation_handler:
  "''RequestValidationError'' \<in> set classes \<Longrightarrow> ''HTTPException'' \<notin> set classes \<Longrightarrow>
   lookup_exception_handler (exception_handlers http_exception_handler errors) classes
     = Some (request_validation_exception_handler errors)"
  by (induction classes) (auto simp: exception_handlers_def)

lemma ExceptionMiddleware_validation:
  assumes "app request w = (Raised e, w1)"
    and "isinstance e ''Exception''"
    and "isinstance e ''RequestValidationError''"
    and "\<not> isinstance e ''HTTPException''"
  shows "ExceptionMiddleware (exception_handlers http_exception_handler errors) app request w
           = (Returned (request_validation_exception_handler errors e), w1)"
  using assms
  by (simp add: ExceptionMiddleware_def isinstance_def lookup_validation_handler)

text \<open>The sample exceptions, evaluated.\<close>

lemma isinstance_simps:
  "isinstance (RuntimeError m) c \<longleftrightarrow> c \<in> {''RuntimeError'', ''Exception'', ''BaseException'', ''object''}"
  "isinstance (ValueError m) c \<longleftrightarrow> c \<in> {''ValueError'', ''Exception'', ''BaseException'', ''object''}"
  "isinstance (RequestValidationError m) c \<longleftrightarrow>
     c \<in> {''RequestValidationError'', ''ValidationException'', ''Exception'', ''BaseException'', ''object''}"
  by (auto simp: isinstance_def RuntimeError_def ValueError_def RequestValidationError_def)

lemma str_simps:
  "str (RuntimeError m) = m" "str (ValueError m) = m" "str (RequestValidationError m) = m"
  by (simp_all add: RuntimeError_def ValueError_def RequestValidationError_def)

section \<open>Resource failures\<close>

text \<open>
  Claim C1. When the handler chain raises a failure that the middleware classifies as a
  resource failure, the middleware returns a response with status 503 whose body is
  exactly \<^verbatim>\<open>{"detail": "Service unavailable - database error"}\<close>: one field, and nothing
  of the failure in it. The middleware's test for a resource failure is the one of its
  first \<^verbatim>\<open>except\<close> clause: an instance of \<^verbatim>\<open>RuntimeError\<close> whose text contains
  \<^verbatim>\<open>MongoDB\<close>. The response is a constant: the failure does not occur in it.
\<close>

theorem resource_failure_503:
  assumes "call_next request w = (Raised e, w1)"
    and "isinstance e ''RuntimeError''"
    and "py_in ''MongoDB'' (str e)"
  shows "fst (db_exception_handler call_next request w) =
           Returned \<lparr>status_code = 503,
                     body = JSON [(''detail'', ''Service unavailable - database error'')]\<rparr>"
  using assms by (simp add: mw_503 JSONResponse_def)

text \<open>
  The hypotheses hold for a \<^verbatim>\<open>RuntimeError("MongoDB connection lost")\<close>.
\<close>

theorem resource_failure_503_witness:
  "isinstance (RuntimeError ''MongoDB connection lost'') ''RuntimeError''
   \<and> py_in ''MongoDB'' (str (RuntimeError ''MongoDB connection lost''))
   \<and> fst (db_exception_handler (raising (RuntimeError ''MongoDB connection lost'')) () world0) =
       Returned \<lparr>status_code = 503,
                 body = JSON [(''detail'', ''Service unavailable - database error'')]\<rparr>"
proof -
  have a: "raising (RuntimeError ''MongoDB connection lost'') () world0
             = (Raised (RuntimeError ''MongoDB connection lost''), world0)"
    by (simp add: raising_def)
  have b: "isinstance (RuntimeError ''MongoDB connection lost'') ''RuntimeError''"
    by (simp add: isinstance_def RuntimeError_def)
  have c: "py_in ''MongoDB'' (str (RuntimeError ''MongoDB connection lost''))"
    by (simp add: RuntimeError_def)
  show ?thesis
    by (intro conjI b c
          resource_failure_503 [of "raising (RuntimeError ''MongoDB connection lost'')" "()" world0, OF a b c])
qed

section \<open>Failures that pass the middleware\<close>

text \<open>
  Claim C2, as amended. The exception handling middleware is the outermost of the
  middleware the application adds: the stack the application builds is
  \<open>db_exception_handler\<close> around everything else. A failure deriving from \<^verbatim>\<open>Exception\<close>
  that escapes the rest of the chain is translated there into the 503 or the 500
  response, except a \<^verbatim>\<open>RuntimeError\<close> whose text lacks \<^verbatim>\<open>MongoDB\<close>: the middleware
  raises that one again, unchanged, and it goes on past the middleware.
\<close>

theorem failures_translated_or_reraised:
  assumes "cors endpoints request w = (Raised e, w1)"
    and "isinstance e ''Exception''"
  shows "(isinstance e ''RuntimeError'' \<and> \<not> py_in ''MongoDB'' (str e) \<longrightarrow>
            build_middleware_stack (create_app cors connect_to_mongo close_mongo api_router)
              endpoints request w = (Raised e, w1))
       \<and> (\<not> (isinstance e ''RuntimeError'' \<and> \<not> py_in ''MongoDB'' (str e)) \<longrightarrow>
            (\<exists>r w2. build_middleware_stack (create_app cors connect_to_mongo close_mongo api_router)
                       endpoints request w = (Returned r, w2)
                  \<and> (r = JSONResponse 503 [(''detail'', ''Service unavailable - database error'')]
                     \<or> r = JSONResponse 500 [(''detail'', ''Internal server error'')])))"
proof (intro conjI impI)
  assume "isinstance e ''RuntimeError'' \<and> \<not> py_in ''MongoDB'' (str e)"
  with assms(1) show "build_middleware_stack (create_app cors connect_to_mongo close_mongo api_router)
              endpoints request w = (Raised e, w1)"
    by (simp add: stack_outermost mw_reraise)
next
  assume h: "\<not> (isinstance e ''RuntimeError'' \<and> \<not> py_in ''MongoDB'' (str e))"
  show "\<exists>r w2. build_middleware_stack (create_app cors connect_to_mongo close_mongo api_router)
                       endpoints request w = (Returned r, w2)
                  \<and> (r = JSONResponse 503 [(''detail'', ''Service unavailable - database error'')]
                     \<or> r = JSONResponse 500 [(''detail'', ''Internal server error'')])"
  proof (cases "isinstance e ''RuntimeError''")
    case True
    with h have "py_in ''MongoDB'' (str e)" by simp
    with True assms(1) show ?thesis by (simp add: stack_outermost mw_503)
  next
    case False
    with assms show ?thesis by (simp add: stack_outermost mw_500)
  qed
qed

text \<open>
  The two cases at work: a \<^verbatim>\<open>RuntimeError("connection pool exhausted")\<close> leaves the
  stack, a \<^verbatim>\<open>ValueError("bad literal")\<close> becomes a response.
\<close>

theorem failures_translated_or_reraised_witness:
  "build_middleware_stack (create_app transparent succeeding succeeding [])
       (raising (RuntimeError ''connection pool exhausted'')) () world0
     = (Raised (RuntimeError ''connection pool exhausted''), world0)
   \<and> (\<exists>r w2. build_middleware_stack (create_app transparent succeeding succeeding [])
                 (raising (ValueError ''bad literal'')) () world0 = (Returned r, w2)
            \<and> (r = JSONResponse 503 [(''detail'', ''Service unavailable - database error'')]
               \<or> r = JSONResponse 500 [(''detail'', ''Internal server error'')]))"
proof -
  let ?e = "RuntimeError ''connection pool exhausted''" and ?v = "ValueError ''bad literal''"
  have a: "transparent (raising ?e) () world0 = (Raised ?e, world0)"
    by (simp add: transparent_def raising_def)
  have b: "isinstance ?e ''Exception''" by (simp add: isinstance_simps)
  have c: "isinstance ?e ''RuntimeError'' \<and> \<not> py_in ''MongoDB'' (str ?e)"
    by (simp add: isinstance_simps str_simps)
  have a': "transparent (raising ?v) () world0 = (Raised ?v, world0)"
    by (simp add: transparent_def raising_def)
  have b': "isinstance ?v ''Exception''" by (simp add: isinstance_simps)
  have c': "\<not> (isinstance ?v ''RuntimeError'' \<and> \<not> py_in ''MongoDB'' (str ?v))"
    by (simp add: isinstance_simps)
  note t = failures_translated_or_reraised
             [where cors = transparent and endpoints = "raising ?e" and request = "()"
                and w = world0 and connect_to_mongo = succeeding and close_mongo = succeeding
                and api_router = "[]", OF a b]
  note t' = failures_translated_or_reraised
             [where cors = transparent and endpoints = "raising ?v" and request = "()"
                and w = world0 and connect_to_mongo = succeeding and close_mongo = succeeding
                and api_router = "[]", OF a' b']
  show ?thesis
    by (intro conjI t [THEN conjunct1, THEN mp, OF c] t' [THEN conjunct2, THEN mp, OF c'])
qed

text \<open>
  Claim C2 as stated says that no failure raised by a handler goes past the middleware.
  A \<^verbatim>\<open>RuntimeError("connection pool exhausted")\<close> does: the outcome of the middleware is
  that exception, raised, and not a response.
\<close>

theorem reraised_failure_escapes:
  "isinstance (RuntimeError ''connection pool exhausted'') ''Exception''
   \<and> db_exception_handler (raising (RuntimeError ''connection pool exhausted'')) () world0
       = (Raised (RuntimeError ''connection pool exhausted''), world0)"
  by (simp add: db_exception_handler_def raising_def RuntimeError_def isinstance_def)

section \<open>Unclassified failures\<close>

text \<open>
  Claim C3, as amended. When the handler chain raises a failure deriving from
  \<^verbatim>\<open>Exception\<close> that is not an instance of \<^verbatim>\<open>RuntimeError\<close>, the middleware returns
  status 500 with body exactly \<^verbatim>\<open>{"detail": "Internal server error"}\<close>, and the world it
  leaves is the one the chain left with one record more in the log, at level
  \<^verbatim>\<open>ERROR\<close>, holding the failure's message and its traceback. The response is a constant:
  nothing of the failure reaches the caller.
\<close>

theorem other_failure_500_logged_once:
  assumes "call_next request w = (Raised e, w1)"
    and "isinstance e ''Exception''"
    and "\<not> isinstance e ''RuntimeError''"
  shows "fst (db_exception_handler call_next request w) =
           Returned \<lparr>status_code = 500, body = JSON [(''detail'', ''Internal server error'')]\<rparr>
       \<and> snd (db_exception_handler call_next request w) =
           w1\<lparr>log := log w1 @
                 [(ERROR, ''Unhandled exception: '' @ str e @ [CHR 0x0A] @ format_exc e)]\<rparr>"
  using assms by (simp add: mw_500 JSONResponse_def logger_error_def)

text \<open>
  The hypotheses hold for a \<^verbatim>\<open>ValueError("bad literal")\<close>.
\<close>

theorem other_failure_500_logged_once_witness:
  "isinstance (ValueError ''bad literal'') ''Exception''
   \<and> \<not> isinstance (ValueError ''bad literal'') ''RuntimeError''
   \<and> fst (db_exception_handler (raising (ValueError ''bad literal'')) () world0) =
       Returned \<lparr>status_code = 500, body = JSON [(''detail'', ''Internal server error'')]\<rparr>
   \<and> snd (db_exception_handler (raising (ValueError ''bad literal'')) () world0) =
       world0\<lparr>log := log world0 @
                 [(ERROR, ''Unhandled exception: '' @ str (ValueError ''bad literal'') @ [CHR 0x0A]
                          @ format_exc (ValueError ''bad literal''))]\<rparr>"
proof -
  let ?v = "ValueError ''bad literal''"
  have a: "raising ?v () world0 = (Raised ?v, world0)" by (simp add: raising_def)
  have b: "isinstance ?v ''Exception''" by (simp add: isinstance_simps)
  have c: "\<not> isinstance ?v ''RuntimeError''" by (simp add: isinstance_simps)
  note t = other_failure_500_logged_once [of "raising ?v" "()" world0, OF a b c]
  show ?thesis
    by (intro conjI b c t [THEN conjunct1] t [THEN conjunct2])
qed

text \<open>
  Claim C3 as stated covers every failure that is not a resource failure and not a
  validation failure. A \<^verbatim>\<open>RuntimeError("unexpected state")\<close> is one: the middleware
  raises it again, returns no 500 response and writes nothing to the log.
\<close>

theorem runtime_error_not_logged:
  "\<not> (isinstance (RuntimeError ''unexpected state'') ''RuntimeError''
        \<and> py_in ''MongoDB'' (str (RuntimeError ''unexpected state'')))
   \<and> \<not> isinstance (RuntimeError ''unexpected state'') ''RequestValidationError''
   \<and> fst (db_exception_handler (raising (RuntimeError ''unexpected state'')) () world0)
       = Raised (RuntimeError ''unexpected state'')
   \<and> log (snd (db_exception_handler (raising (RuntimeError ''unexpected state'')) () world0)) = []"
  by (simp add: db_exception_handler_def raising_def RuntimeError_def isinstance_def world0_def)

section \<open>Validation failures\<close>

text \<open>
  Claim C4. For a request with malformed input the route handler raises a
  \<^verbatim>\<open>RequestValidationError\<close>. The failure goes to the standard path for input validation
  errors: the framework's handler answers it, inside \<^verbatim>\<open>call_next\<close>, with status 422 and
  the errors under \<^verbatim>\<open>detail\<close>. The stack the application builds, with
  \<open>db_exception_handler\<close> outermost, returns exactly that response and the world as the
  route handler left it: the middleware writes nothing to the log and does not turn the
  failure into the 503 or the 500 response. The CORS middleware is taken to hand this
  request on and its response back.
\<close>

theorem validation_failure_gets_422:
  assumes "route_handlers request w = (Raised e, w1)"
    and "isinstance e ''Exception''"
    and "isinstance e ''RequestValidationError''"
    and "\<not> isinstance e ''HTTPException''"
    and "cors (ExceptionMiddleware (exception_handlers http_exception_handler errors) route_handlers)
           request w
         = ExceptionMiddleware (exception_handlers http_exception_handler errors) route_handlers
             request w"
  shows "build_middleware_stack (create_app cors connect_to_mongo close_mongo api_router)
           (ExceptionMiddleware (exception_handlers http_exception_handler errors) route_handlers)
           request w
         = (Returned \<lparr>status_code = 422, body = JSON [(''detail'', errors e)]\<rparr>, w1)
       \<and> fst (build_middleware_stack (create_app cors connect_to_mongo close_mongo api_router)
           (ExceptionMiddleware (exception_handlers http_exception_handler errors) route_handlers)
           request w)
         \<noteq> Returned (JSONResponse 503 [(''detail'', ''Service unavailable - database error'')])
       \<and> fst (build_middleware_stack (create_app cors connect_to_mongo close_mongo api_router)
           (ExceptionMiddleware (exception_handlers http_exception_handler errors) route_handlers)
           request w)
         \<noteq> Returned (JSONResponse 500 [(''detail'', ''Internal server error'')])"
proof -
  let ?inner = "ExceptionMiddleware (exception_handlers http_exception_handler errors) route_handlers"
  have "?inner request w = (Returned (request_validation_exception_handler errors e), w1)"
    using assms(1-4) by (rule ExceptionMiddleware_validation)
  with assms(5)
  have "cors ?inner request w = (Returned (request_validation_exception_handler errors e), w1)"
    by simp
  then have "db_exception_handler (cors ?inner) request w
               = (Returned (request_validation_exception_handler errors e), w1)"
    by (rule mw_returned)
  then show ?thesis
    by (simp add: stack_outermost request_validation_exception_handler_def JSONResponse_def)
qed

text \<open>
  A route handler that raises \<^verbatim>\<open>RequestValidationError("field required")\<close>, in the
  application with FastAPI's handlers.
\<close>

theorem validation_failure_gets_422_witness:
  "build_middleware_stack (create_app transparent succeeding succeeding [])
       (ExceptionMiddleware (exception_handlers answer_detail str)
          (raising (RequestValidationError ''field required'')))
       () world0
     = (Returned \<lparr>status_code = 422,
                  body = JSON [(''detail'', str (RequestValidationError ''field required''))]\<rparr>,
        world0)"
proof -
  let ?e = "RequestValidationError ''field required''"
  let ?inner = "ExceptionMiddleware (exception_handlers answer_detail str) (raising ?e)
                  :: (unit, unit) chain"
  have a: "raising ?e () world0 = (Raised ?e, world0)" by (simp add: raising_def)
  have b: "isinstance ?e ''Exception''" by (simp add: isinstance_simps)
  have c: "isinstance ?e ''RequestValidationError''" by (simp add: isinstance_simps)
  have d: "\<not> isinstance ?e ''HTTPException''" by (simp add: isinstance_simps)
  have f: "transparent ?inner () world0 = ?inner () world0" by (simp add: transparent_def)
  note t = validation_failure_gets_422
             [where route_handlers = "raising ?e" and request = "()" and w = world0
                and cors = transparent and http_exception_handler = answer_detail
                and errors = str and connect_to_mongo = succeeding
                and close_mongo = succeeding and api_router = "[]", OF a b c d f]
  show ?thesis by (rule t [THEN conjunct1])
qed

section \<open>Releasing the resource\<close>

text \<open>
  Claim C5. The shutdown release never throws, ends in state \<^verbatim>\<open>CLOSED\<close>, and is
  idempotent: a second call changes nothing and raises nothing, and a call in state
  \<^verbatim>\<open>CLOSED\<close> is a no-op. A failure of the underlying close is written to the log and
  swallowed. \<^verbatim>\<open>shutdown_db\<close> has no handling of its own (\<open>shutdown_db_same\<close>): all of
  this is the behaviour of \<^verbatim>\<open>close_mongo_connection\<close> as the spec describes it.
\<close>

theorem shutdown_idempotent_never_throws:
  "fst (shutdown_db (close_mongo_connection driver_close) w) = Returned ()
   \<and> state (rest (snd (shutdown_db (close_mongo_connection driver_close) w))) = CLOSED
   \<and> shutdown_db (close_mongo_connection driver_close)
         (snd (shutdown_db (close_mongo_connection driver_close) w))
       = (Returned (), snd (shutdown_db (close_mongo_connection driver_close) w))
   \<and> (state (rest w) = CLOSED \<longrightarrow>
        shutdown_db (close_mongo_connection driver_close) w = (Returned (), w))
   \<and> (state (rest w) \<noteq> CLOSED \<and> handle (rest w) = Some c \<and> driver_close c = Some e \<longrightarrow>
        log (snd (shutdown_db (close_mongo_connection driver_close) w)) = log w @ [(ERROR, str e)])"
  by (auto simp: shutdown_db_same close_mongo_connection_def Let_def logger_error_def
           split: option.splits)

text \<open>
  A driver whose close fails, on an open connection and on a closed one.
\<close>

theorem shutdown_idempotent_never_throws_witness:
  "fst (shutdown_db (close_mongo_connection (refusing (RuntimeError ''socket already closed'')))
          \<lparr>log = [], rest = \<lparr>state = READY, handle = Some ()\<rparr>\<rparr>) = Returned ()
   \<and> log (snd (shutdown_db (close_mongo_connection (refusing (RuntimeError ''socket already closed'')))
          \<lparr>log = [], rest = \<lparr>state = READY, handle = Some ()\<rparr>\<rparr>))
       = log \<lparr>log = [], rest = \<lparr>state = READY, handle = Some ()\<rparr>\<rparr>
         @ [(ERROR, str (RuntimeError ''socket already closed''))]
   \<and> shutdown_db (close_mongo_connection (refusing (RuntimeError ''socket already closed'')))
          \<lparr>log = [], rest = \<lparr>state = CLOSED, handle = None :: unit option\<rparr>\<rparr>
       = (Returned (), \<lparr>log = [], rest = \<lparr>state = CLOSED, handle = None\<rparr>\<rparr>)"
proof -
  let ?e = "RuntimeError ''socket already closed''"
  let ?w = "\<lparr>log = [], rest = \<lparr>state = READY, handle = Some ()\<rparr>\<rparr>"
  let ?c = "\<lparr>log = [], rest = \<lparr>state = CLOSED, handle = None :: unit option\<rparr>\<rparr>"
  have a: "state (rest ?w) \<noteq> CLOSED \<and> handle (rest ?w) = Some () \<and> refusing ?e () = Some ?e"
    by (simp add: refusing_def)
  have b: "state (rest ?c) = CLOSED" by simp
  note t = shutdown_idempotent_never_throws [where driver_close = "refusing ?e" and w = ?w]
  note t' = shutdown_idempotent_never_throws [where driver_close = "refusing ?e" and w = ?c]
  show ?thesis
    by (intro conjI t [THEN conjunct1]
          t [THEN conjunct2, THEN conjunct2, THEN conjunct2, THEN conjunct2, THEN mp, OF a]
          t' [THEN conjunct2, THEN conjunct2, THEN conjunct2, THEN conjunct1, THEN mp, OF b])
qed

section \<open>A failed startup\<close>

text \<open>
  Claim C6. When acquiring the resource fails at startup, \<^verbatim>\<open>startup_db\<close> writes the
  failure to the log at level \<^verbatim>\<open>CRITICAL\<close> and raises it again; the run of the
  application then never enters the phase \<^verbatim>\<open>RUNNING\<close> and answers no request, and the
  world it ends in is the one the failed connection left, with that one log record more:
  no handler has run. Conversely, a run that reaches \<^verbatim>\<open>RUNNING\<close> or answers a request is
  one where the connection call returned. A failure is an instance of \<^verbatim>\<open>Exception\<close>.
\<close>

theorem startup_failure_is_fatal:
  "(connect_to_mongo w = (Raised e, w1) \<and> isinstance e ''Exception'' \<longrightarrow>
      startup_db connect_to_mongo w =
        (Raised e, logger_critical (''Failed to initialize database: '' @ str e) w1)
      \<and> run_server (create_app cors connect_to_mongo close_mongo api_router) endpoints requests w =
          \<lparr>phases = [STARTING], startup_failure = Some e, responses = [],
           final = logger_critical (''Failed to initialize database: '' @ str e) w1\<rparr>)
   \<and> (RUNNING \<in> set (phases (run_server (create_app cors connect_to_mongo close_mongo api_router)
                                endpoints requests w))
        \<or> responses (run_server (create_app cors connect_to_mongo close_mongo api_router)
                        endpoints requests w) \<noteq> [] \<longrightarrow>
      (\<exists>w1. connect_to_mongo w = (Returned (), w1)))"
proof (intro conjI impI)
  assume h: "connect_to_mongo w = (Raised e, w1) \<and> isinstance e ''Exception''"
  then show "startup_db connect_to_mongo w =
        (Raised e, logger_critical (''Failed to initialize database: '' @ str e) w1)"
    by (simp add: startup_db_raised)
  from h show "run_server (create_app cors connect_to_mongo close_mongo api_router) endpoints requests w =
          \<lparr>phases = [STARTING], startup_failure = Some e, responses = [],
           final = logger_critical (''Failed to initialize database: '' @ str e) w1\<rparr>"
    by (simp add: run_server_def on_startup_create_app startup_db_raised)
next
  assume h: "RUNNING \<in> set (phases (run_server (create_app cors connect_to_mongo close_mongo api_router)
                                endpoints requests w))
        \<or> responses (run_server (create_app cors connect_to_mongo close_mongo api_router)
                        endpoints requests w) \<noteq> []"
  have "\<exists>w1. startup_db connect_to_mongo w = (Returned (), w1)"
  proof (cases "startup_db connect_to_mongo w")
    case (Pair out w1)
    show ?thesis
    proof (cases out)
      case (Returned u)
      with Pair show ?thesis by simp
    next
      case (Raised x)
      with Pair h show ?thesis
        by (simp add: run_server_def on_startup_create_app)
    qed
  qed
  then show "\<exists>w1. connect_to_mongo w = (Returned (), w1)"
    by (simp add: startup_db_returned_iff)
qed

text \<open>
  A connection that fails with \<^verbatim>\<open>RuntimeError("MongoDB connection failed")\<close>, with two
  requests waiting.
\<close>

theorem startup_failure_is_fatal_witness:
  "startup_db (failing (RuntimeError ''MongoDB connection failed'')) world0 =
        (Raised (RuntimeError ''MongoDB connection failed''),
         logger_critical (''Failed to initialize database: ''
                          @ str (RuntimeError ''MongoDB connection failed'')) world0)
   \<and> run_server (create_app transparent (failing (RuntimeError ''MongoDB connection failed''))
                   succeeding [])
        (answering \<lparr>status_code = 200, body = Raw ''ok''\<rparr>) [(), ()] world0 =
          \<lparr>phases = [STARTING], startup_failure = Some (RuntimeError ''MongoDB connection failed''),
           responses = [],
           final = logger_critical (''Failed to initialize database: ''
                                    @ str (RuntimeError ''MongoDB connection failed'')) world0\<rparr>"
proof -
  let ?e = "RuntimeError ''MongoDB connection failed''"
  have a: "failing ?e world0 = (Raised ?e, world0) \<and> isinstance ?e ''Exception''"
    by (simp add: failing_def isinstance_simps)
  note t = startup_failure_is_fatal [where connect_to_mongo = "failing ?e" and w = world0
             and cors = transparent and close_mongo = succeeding and api_router = "[]"
             and endpoints = "answering \<lparr>status_code = 200, body = Raw ''ok''\<rparr>"
             and requests = "[(), ()]", THEN conjunct1, THEN mp, OF a]
  show ?thesis
    by (intro conjI t [THEN conjunct1] t [THEN conjunct2])
qed

section \<open>Responses do not depend on the failure\<close>

text \<open>
  Claim C7, as amended. Two failures that the middleware sorts the same way, as a
  resource failure or as an internal error, get the same response, whatever the chains,
  requests and worlds, and that response is one of the two fixed ones: nothing of a
  failure's message, traceback or paths is in it. The failures the middleware raises
  again (\<open>PassThrough\<close>) are left out: it sends no body for them.
\<close>

theorem same_classification_same_response:
  assumes "call_next request w = (Raised e, w1)"
    and "call_next' request' w' = (Raised e', w1')"
    and "classify e = classify e'"
    and "classify e \<noteq> PassThrough"
  shows "fst (db_exception_handler call_next request w)
           = fst (db_exception_handler call_next' request' w')
       \<and> (fst (db_exception_handler call_next request w) =
            Returned (JSONResponse 503 [(''detail'', ''Service unavailable - database error'')])
          \<or> fst (db_exception_handler call_next request w) =
            Returned (JSONResponse 500 [(''detail'', ''Internal server error'')]))"
  using assms
  by (auto simp: classify_def db_exception_handler_def split: if_splits)

text \<open>
  Two \<^verbatim>\<open>ValueError\<close>s with different texts get the same response.
\<close>

theorem same_classification_same_response_witness:
  "classify (ValueError ''cannot read /srv/app/keys/signing.pem'')
     = classify (ValueError ''ledger node 10.0.3.7 refused'')
   \<and> classify (ValueError ''cannot read /srv/app/keys/signing.pem'') \<noteq> PassThrough
   \<and> fst (db_exception_handler (raising (ValueError ''cannot read /srv/app/keys/signing.pem'')) () world0)
       = fst (db_exception_handler (raising (ValueError ''ledger node 10.0.3.7 refused'')) () world0)
   \<and> (fst (db_exception_handler (raising (ValueError ''cannot read /srv/app/keys/signing.pem'')) () world0) =
            Returned (JSONResponse 503 [(''detail'', ''Service unavailable - database error'')])
          \<or> fst (db_exception_handler (raising (ValueError ''cannot read /srv/app/keys/signing.pem'')) () world0) =
            Returned (JSONResponse 500 [(''detail'', ''Internal server error'')]))"
proof -
  let ?e = "ValueError ''cannot read /srv/app/keys/signing.pem''"
  let ?e' = "ValueError ''ledger node 10.0.3.7 refused''"
  have a: "raising ?e () world0 = (Raised ?e, world0)" by (simp add: raising_def)
  have a': "raising ?e' () world0 = (Raised ?e', world0)" by (simp add: raising_def)
  have b: "classify ?e = classify ?e'" by (simp add: classify_def isinstance_simps)
  have c: "classify ?e \<noteq> PassThrough" by (simp add: classify_def isinstance_simps)
  note t = same_classification_same_response
             [of "raising ?e" "()" world0 ?e world0 "raising ?e'" "()" world0 ?e' world0, OF a a' b c]
  show ?thesis
    by (intro conjI b c t [THEN conjunct1] t [THEN conjunct2])
qed

text \<open>
  Claim C7 as stated covers any two failures of the same classification. Two
  \<^verbatim>\<open>RuntimeError\<close>s without \<^verbatim>\<open>MongoDB\<close> in their texts are sorted the same way, and
  the outcomes of the middleware differ: each is the original exception, text and
  traceback included, and neither is one of the two fixed responses.
\<close>

theorem passed_through_failures_differ:
  "classify (RuntimeError ''cannot read /srv/app/keys/signing.pem'')
     = classify (RuntimeError ''ledger node 10.0.3.7 refused'')
   \<and> fst (db_exception_handler (raising (RuntimeError ''cannot read /srv/app/keys/signing.pem'')) () world0)
       = Raised (RuntimeError ''cannot read /srv/app/keys/signing.pem'')
   \<and> fst (db_exception_handler (raising (RuntimeError ''ledger node 10.0.3.7 refused'')) () world0)
       = Raised (RuntimeError ''ledger node 10.0.3.7 refused'')
   \<and> fst (db_exception_handler (raising (RuntimeError ''cannot read /srv/app/keys/signing.pem'')) () world0)
       \<noteq> fst (db_exception_handler (raising (RuntimeError ''ledger node 10.0.3.7 refused'')) () world0)"
  by (simp add: classify_def db_exception_handler_def raising_def RuntimeError_def isinstance_def)

section \<open>One call of the handler chain\<close>

text \<open>
  Claim C8. The middleware calls the handler chain once and sorts its outcome once,
  afterwards. Whatever the chain is, what the middleware gives is fixed by the outcome and
  the world of one call of the chain: a response is handed back with that world; a
  failure is sorted once, and the result is the 503 response, the 500 response or the
  failure raised again, as its classification says, with that world and, for the two
  responses, exactly the one log record of the class added to it. Nothing is called
  again after a failure.
\<close>

theorem handler_chain_called_once:
  assumes "call_next request w = (out, w1)"
  shows "db_exception_handler call_next request w =
           (case out of
              Returned r \<Rightarrow> (Returned r, w1)
            | Raised e \<Rightarrow>
                (case classify e of
                   ServiceUnavailable \<Rightarrow>
                     (Returned (JSONResponse 503 [(''detail'', ''Service unavailable - database error'')]),
                      w1\<lparr>log := log w1 @ [(ERROR, ''Database error: '' @ str e)]\<rparr>)
                 | InternalError \<Rightarrow>
                     (Returned (JSONResponse 500 [(''detail'', ''Internal server error'')]),
                      w1\<lparr>log := log w1 @
                            [(ERROR, ''Unhandled exception: '' @ str e @ [CHR 0x0A] @ format_exc e)]\<rparr>)
                 | PassThrough \<Rightarrow> (Raised e, w1)))"
proof (cases out)
  case (Returned r)
  with assms show ?thesis by (simp add: mw_returned)
next
  case (Raised e)
  with assms have c: "call_next request w = (Raised e, w1)" by simp
  show ?thesis
  proof (cases "classify e")
    case ServiceUnavailable
    then have "isinstance e ''RuntimeError''" "py_in ''MongoDB'' (str e)"
      by (auto simp: classify_def split: if_splits)
    with c Raised ServiceUnavailable show ?thesis by (simp add: mw_503 logger_error_def)
  next
    case InternalError
    then have "\<not> isinstance e ''RuntimeError''" "isinstance e ''Exception''"
      by (auto simp: classify_def split: if_splits)
    with c Raised InternalError show ?thesis by (simp add: mw_500 logger_error_def)
  next
    case PassThrough
    with c have "db_exception_handler call_next request w = (Raised e, w1)"
      by (auto simp: classify_def mw_reraise mw_uncaught split: if_splits)
    with Raised PassThrough show ?thesis by simp
  qed
qed

text \<open>
  A chain that counts its calls and fails has been called once when the middleware is
  done, whether the failure is answered, with one log record, or raised again, with none.
\<close>

theorem handler_chain_called_once_witness:
  "db_exception_handler (counting (Raised (ValueError ''bad literal''))) () \<lparr>log = [], rest = 0\<rparr>
     = (Returned (JSONResponse 500 [(''detail'', ''Internal server error'')]),
        \<lparr>log = [(ERROR, ''Unhandled exception: '' @ str (ValueError ''bad literal'') @ [CHR 0x0A]
                         @ format_exc (ValueError ''bad literal''))],
         rest = Suc 0\<rparr>)
   \<and> db_exception_handler (counting (Raised (RuntimeError ''unexpected state''))) ()
        \<lparr>log = [], rest = 0\<rparr>
     = (Raised (RuntimeError ''unexpected state''), \<lparr>log = [], rest = Suc 0\<rparr>)"
proof -
  let ?v = "ValueError ''bad literal''" and ?e = "RuntimeError ''unexpected state''"
  let ?w = "\<lparr>log = [], rest = 0::nat\<rparr>" and ?w1 = "\<lparr>log = [], rest = Suc 0\<rparr>"
  have a: "counting (Raised ?v) () ?w = (Raised ?v, ?w1)" by (simp add: counting_def)
  have a': "counting (Raised ?e) () ?w = (Raised ?e, ?w1)" by (simp add: counting_def)
  have cv: "classify ?v = InternalError" by (simp add: classify_def isinstance_simps)
  have ce: "classify ?e = PassThrough" by (simp add: classify_def isinstance_simps str_simps)
  from handler_chain_called_once
         [where call_next = "counting (Raised ?v)" and request = "()" and w = ?w, OF a]
  have 1: "db_exception_handler (counting (Raised ?v)) () ?w
     = (Returned (JSONResponse 500 [(''detail'', ''Internal server error'')]),
        \<lparr>log = [(ERROR, ''Unhandled exception: '' @ str ?v @ [CHR 0x0A] @ format_exc ?v)],
         rest = Suc 0\<rparr>)"
    by (simp add: cv)
  from handler_chain_called_once
         [where call_next = "counting (Raised ?e)" and request = "()" and w = ?w, OF a']
  have 2: "db_exception_handler (counting (Raised ?e)) () ?w = (Raised ?e, ?w1)"
    by (simp add: ce)
  show ?thesis by (intro conjI 1 2)
qed

section \<open>The composed namespace\<close>

text \<open>
  Claim C9. The router of \<^verbatim>\<open>app.api.v1\<close> holds the routes of the four groups, auth,
  artwork, blockchain and admin, each once and in that order, under their own paths; the
  application holds these same routes, each path behind the prefix \<^verbatim>\<open>/api/v1\<close>, and
  after them its two own routes.
\<close>

theorem routes_composed_once:
  "router auth artwork blockchain admin = auth @ artwork @ blockchain @ admin
   \<and> routes (create_app cors connect_to_mongo close_mongo (router auth artwork blockchain admin)) =
       map (\<lambda>r. r\<lparr>path := ''/api/v1'' @ path r\<rparr>) (auth @ artwork @ blockchain @ admin)
       @ [\<lparr>path = ''/'', endpoint = ''root''\<rparr>, \<lparr>path = ''/favicon.ico'', endpoint = ''favicon''\<rparr>]"
proof -
  have r: "router auth artwork blockchain admin = auth @ artwork @ blockchain @ admin"
    by (simp add: router_def include_router_no_prefix)
  show ?thesis
    unfolding routes_create_app r by simp
qed

text \<open>
  Five routes in four groups.
\<close>

theorem routes_composed_once_witness:
  "routes (create_app transparent succeeding succeeding
             (router auth_routes artwork_routes blockchain_routes admin_routes)
           :: (unit, unit) FastAPI) =
     [\<lparr>path = ''/api/v1/auth/login'', endpoint = ''login''\<rparr>,
      \<lparr>path = ''/api/v1/auth/register'', endpoint = ''register''\<rparr>,
      \<lparr>path = ''/api/v1/artwork/{id}'', endpoint = ''get_artwork''\<rparr>,
      \<lparr>path = ''/api/v1/blockchain/status'', endpoint = ''status''\<rparr>,
      \<lparr>path = ''/api/v1/admin/users'', endpoint = ''list_users''\<rparr>,
      \<lparr>path = ''/'', endpoint = ''root''\<rparr>,
      \<lparr>path = ''/favicon.ico'', endpoint = ''favicon''\<rparr>]"
  using routes_composed_once [of auth_routes artwork_routes blockchain_routes admin_routes
          "transparent :: (unit, unit) chain \<Rightarrow> (unit, unit) chain" succeeding succeeding,
          THEN conjunct2]
  by (simp add: auth_routes_def artwork_routes_def blockchain_routes_def admin_routes_def)

section \<open>What the classification tests\<close>

text \<open>
  Claim C10. The 503 response needs both conditions at once: the exception is an instance
  of \<^verbatim>\<open>RuntimeError\<close> and \<^verbatim>\<open>MongoDB\<close> occurs in its text. A failure of another exception
  type gets the 500 response whatever its text says, and a \<^verbatim>\<open>RuntimeError\<close> without
  \<^verbatim>\<open>MongoDB\<close> in its text is raised again by the middleware: it is mapped to no
  response. A failure is an instance of \<^verbatim>\<open>Exception\<close>, as every error class of Python
  is; what derives from \<^verbatim>\<open>BaseException\<close> only (\<^verbatim>\<open>KeyboardInterrupt\<close>, \<^verbatim>\<open>SystemExit\<close>)
  is a signal to leave, which no clause of the middleware catches (\<open>mw_uncaught\<close>).
\<close>

theorem classification_needs_both:
  assumes "call_next request w = (Raised e, w1)"
    and "isinstance e ''Exception''"
  shows "(fst (db_exception_handler call_next request w) =
            Returned (JSONResponse 503 [(''detail'', ''Service unavailable - database error'')])
          \<longleftrightarrow> isinstance e ''RuntimeError'' \<and> (\<exists>ps ss. str e = ps @ ''MongoDB'' @ ss))
       \<and> (\<not> isinstance e ''RuntimeError'' \<longrightarrow>
            db_exception_handler call_next request w =
              (Returned (JSONResponse 500 [(''detail'', ''Internal server error'')]),
               logger_error (''Unhandled exception: '' @ str e @ [CHR 0x0A] @ format_exc e) w1))
       \<and> (isinstance e ''RuntimeError'' \<and> \<not> (\<exists>ps ss. str e = ps @ ''MongoDB'' @ ss) \<longrightarrow>
            db_exception_handler call_next request w = (Raised e, w1))"
proof -
  have sub: "(\<exists>ps ss. str e = ps @ ''MongoDB'' @ ss) \<longleftrightarrow> py_in ''MongoDB'' (str e)"
    by (rule py_in_iff [symmetric])
  show ?thesis
    unfolding sub
  proof (intro conjI impI)
    show "fst (db_exception_handler call_next request w) =
              Returned (JSONResponse 503 [(''detail'', ''Service unavailable - database error'')])
            \<longleftrightarrow> isinstance e ''RuntimeError'' \<and> py_in ''MongoDB'' (str e)"
      using assms
      by (cases "isinstance e ''RuntimeError''"; cases "py_in ''MongoDB'' (str e)")
         (simp_all add: mw_503 mw_reraise mw_500 JSONResponse_eq)
  next
    assume "\<not> isinstance e ''RuntimeError''"
    with assms show "db_exception_handler call_next request w =
                (Returned (JSONResponse 500 [(''detail'', ''Internal server error'')]),
                 logger_error (''Unhandled exception: '' @ str e @ [CHR 0x0A] @ format_exc e) w1)"
      by (simp add: mw_500)
  next
    assume "isinstance e ''RuntimeError'' \<and> \<not> py_in ''MongoDB'' (str e)"
    with assms show "db_exception_handler call_next request w = (Raised e, w1)"
      by (simp add: mw_reraise)
  qed
qed

text \<open>
  A \<^verbatim>\<open>RuntimeError\<close> with \<^verbatim>\<open>MongoDB\<close> in its text, a \<^verbatim>\<open>ValueError\<close> with the same text,
  and a \<^verbatim>\<open>RuntimeError\<close> without it.
\<close>

theorem classification_needs_both_witness:
  "fst (db_exception_handler (raising (RuntimeError ''MongoDB connection lost'')) () world0) =
      Returned (JSONResponse 503 [(''detail'', ''Service unavailable - database error'')])
   \<and> db_exception_handler (raising (ValueError ''MongoDB connection lost'')) () world0 =
      (Returned (JSONResponse 500 [(''detail'', ''Internal server error'')]),
       logger_error (''Unhandled exception: '' @ str (ValueError ''MongoDB connection lost'')
                      @ [CHR 0x0A] @ format_exc (ValueError ''MongoDB connection lost'')) world0)
   \<and> db_exception_handler (raising (RuntimeError ''connection lost'')) () world0 =
      (Raised (RuntimeError ''connection lost''), world0)"
proof -
  let ?m = "RuntimeError ''MongoDB connection lost''"
  let ?v = "ValueError ''MongoDB connection lost''"
  let ?r = "RuntimeError ''connection lost''"
  have am: "raising ?m () world0 = (Raised ?m, world0)" by (simp add: raising_def)
  have av: "raising ?v () world0 = (Raised ?v, world0)" by (simp add: raising_def)
  have ar: "raising ?r () world0 = (Raised ?r, world0)" by (simp add: raising_def)
  have bm: "isinstance ?m ''Exception''" and bv: "isinstance ?v ''Exception''"
    and br: "isinstance ?r ''Exception''"
    by (simp_all add: isinstance_simps)
  have cm: "isinstance ?m ''RuntimeError'' \<and> (\<exists>ps ss. str ?m = ps @ ''MongoDB'' @ ss)"
    unfolding py_in_iff [symmetric] by (simp add: isinstance_simps str_simps)
  have cv: "\<not> isinstance ?v ''RuntimeError''" by (simp add: isinstance_simps)
  have cr: "isinstance ?r ''RuntimeError'' \<and> \<not> (\<exists>ps ss. str ?r = ps @ ''MongoDB'' @ ss)"
    unfolding py_in_iff [symmetric] by (simp add: isinstance_simps str_simps)
  note tm = classification_needs_both [of "raising ?m" "()" world0, OF am bm]
  note tv = classification_needs_both [of "raising ?v" "()" world0, OF av bv]
  note tr = classification_needs_both [of "raising ?r" "()" world0, OF ar br]
  show ?thesis
    by (intro conjI tm [THEN conjunct1, THEN iffD2, OF cm]
          tv [THEN conjunct2, THEN conjunct1, THEN mp, OF cv]
          tr [THEN conjunct2, THEN conjunct2, THEN mp, OF cr])
qed

end
